theory Spec2Isabelle
  imports Complex_Main
begin

section \<open>JavaScript values\<close>

text \<open>
  The only exception the three source files can raise on well-typed input is the
  \<^verbatim>\<open>ReferenceError\<close> of a read of, or a strict-mode assignment to, an identifier that is
  declared nowhere; the files are ES modules, so they run in strict mode.
\<close>

datatype js_error = ReferenceError

text \<open>
  A JavaScript number is an IEEE 754 binary64 value. \<open>Finite r\<close> stands for the finite
  double of value \<open>r\<close>; the sign of a zero is not represented.
\<close>

datatype number = Finite real | PosInfinity | NegInfinity | NaN

subsection \<open>Rounding to the nearest double\<close>

text \<open>Rounding a real to the nearest integer, a tie going to the even neighbour.\<close>

definition round_half_even :: "real \<Rightarrow> int" where
  "round_half_even y =
     (let n = \<lfloor>y\<rfloor> in
      if y - of_int n < 1 / 2 then n
      else if 1 / 2 < y - of_int n then n + 1
      else if even n then n else n + 1)"

text \<open>
  The exponent of the binade of \<open>x\<close>, held at \<open>-1022\<close> in the subnormal range, and the
  spacing of the doubles there: 53 significant bits.
\<close>

definition expo :: "real \<Rightarrow> int" where
  "expo x = max \<lfloor>log 2 \<bar>x\<bar>\<rfloor> (- 1022)"

definition ulp :: "real \<Rightarrow> real" where
  "ulp x = 2 powr of_int (expo x - 52)"

definition nearest :: "real \<Rightarrow> real" where
  "nearest x = of_int (round_half_even (x / ulp x)) * ulp x"

text \<open>
  The result of an arithmetic operation whose exact value is \<open>x\<close>: the nearest double,
  and an infinity when that is beyond the largest double.
\<close>

definition fl :: "real \<Rightarrow> number" where
  "fl x =
     (if 2 ^ 1024 \<le> \<bar>nearest x\<bar> then (if 0 < x then PosInfinity else NegInfinity)
      else Finite (nearest x))"

text \<open>The reals that are doubles: those that rounding leaves as they are.\<close>

definition is_double :: "real \<Rightarrow> bool" where
  "is_double x \<longleftrightarrow> fl x = Finite x"

subsection \<open>Arithmetic and comparison\<close>

text \<open>\<^verbatim>\<open>a === b\<close> on numbers: \<^verbatim>\<open>NaN\<close> is equal to nothing, itself included.\<close>

definition strict_eq :: "number \<Rightarrow> number \<Rightarrow> bool" where
  "strict_eq a b \<longleftrightarrow> a \<noteq> NaN \<and> a = b"

text \<open>\<^verbatim>\<open>a + b\<close>\<close>

fun num_add :: "number \<Rightarrow> number \<Rightarrow> number" where
  "num_add NaN b = NaN"
| "num_add a NaN = NaN"
| "num_add (Finite a) (Finite b) = fl (a + b)"
| "num_add (Finite a) b = b"
| "num_add a (Finite b) = a"
| "num_add PosInfinity PosInfinity = PosInfinity"
| "num_add NegInfinity NegInfinity = NegInfinity"
| "num_add a b = NaN"

text \<open>\<^verbatim>\<open>a - b\<close>\<close>

fun num_sub :: "number \<Rightarrow> number \<Rightarrow> number" where
  "num_sub NaN b = NaN"
| "num_sub a NaN = NaN"
| "num_sub (Finite a) (Finite b) = fl (a - b)"
| "num_sub (Finite a) PosInfinity = NegInfinity"
| "num_sub (Finite a) NegInfinity = PosInfinity"
| "num_sub a (Finite b) = a"
| "num_sub PosInfinity NegInfinity = PosInfinity"
| "num_sub NegInfinity PosInfinity = NegInfinity"
| "num_sub a b = NaN"

text \<open>\<^verbatim>\<open>a * b\<close>\<close>

fun num_mul :: "number \<Rightarrow> number \<Rightarrow> number" where
  "num_mul NaN b = NaN"
| "num_mul a NaN = NaN"
| "num_mul (Finite a) (Finite b) = fl (a * b)"
| "num_mul (Finite a) PosInfinity =
     (if a = 0 then NaN else if 0 < a then PosInfinity else NegInfinity)"
| "num_mul (Finite a) NegInfinity =
     (if a = 0 then NaN else if 0 < a then NegInfinity else PosInfinity)"
| "num_mul PosInfinity (Finite b) =
     (if b = 0 then NaN else if 0 < b then PosInfinity else NegInfinity)"
| "num_mul NegInfinity (Finite b) =
     (if b = 0 then NaN else if 0 < b then NegInfinity else PosInfinity)"
| "num_mul PosInfinity PosInfinity = PosInfinity"
| "num_mul NegInfinity NegInfinity = PosInfinity"
| "num_mul a b = NegInfinity"

text \<open>
  \<^verbatim>\<open>a / b\<close>. With no sign on a zero, a zero divisor is read as \<^verbatim>\<open>+0\<close>; no division of
  the three files has a zero divisor on doubles (the divisors are
  \<^verbatim>\<open>maxScore - minScore\<close> after \<^verbatim>\<open>maxScore === minScore\<close> has been excluded, and
  \<^verbatim>\<open>Math.max(1, ...)\<close>).
\<close>

fun num_div :: "number \<Rightarrow> number \<Rightarrow> number" where
  "num_div NaN b = NaN"
| "num_div a NaN = NaN"
| "num_div (Finite a) (Finite b) =
     (if b = 0 then (if a = 0 then NaN else if 0 < a then PosInfinity else NegInfinity)
      else fl (a / b))"
| "num_div (Finite a) b = Finite 0"
| "num_div PosInfinity (Finite b) = (if 0 \<le> b then PosInfinity else NegInfinity)"
| "num_div NegInfinity (Finite b) = (if 0 \<le> b then NegInfinity else PosInfinity)"
| "num_div a b = NaN"

text \<open>\<^verbatim>\<open>Math.sqrt(a)\<close>, correctly rounded as the hardware instruction is.\<close>

fun num_sqrt :: "number \<Rightarrow> number" where
  "num_sqrt (Finite a) = (if a < 0 then NaN else fl (sqrt a))"
| "num_sqrt PosInfinity = PosInfinity"
| "num_sqrt a = NaN"

text \<open>\<^verbatim>\<open>a <= b\<close>\<close>

fun num_le :: "number \<Rightarrow> number \<Rightarrow> bool" where
  "num_le NaN b = False"
| "num_le a NaN = False"
| "num_le NegInfinity b = True"
| "num_le a PosInfinity = True"
| "num_le (Finite a) (Finite b) = (a \<le> b)"
| "num_le a b = False"

text \<open>
  \<^verbatim>\<open>Math.min(...xs)\<close> and \<^verbatim>\<open>Math.max(...xs)\<close>: \<^verbatim>\<open>NaN\<close> as soon as one argument is
  \<^verbatim>\<open>NaN\<close>, and \<^verbatim>\<open>Infinity\<close> and \<^verbatim>\<open>-Infinity\<close> when there is no argument.
\<close>

definition num_min :: "number \<Rightarrow> number \<Rightarrow> number" where
  "num_min a b = (if a = NaN \<or> b = NaN then NaN else if num_le a b then a else b)"

definition num_max :: "number \<Rightarrow> number \<Rightarrow> number" where
  "num_max a b = (if a = NaN \<or> b = NaN then NaN else if num_le a b then b else a)"

definition Math_min :: "number list \<Rightarrow> number" where
  "Math_min xs = fold num_min xs PosInfinity"

definition Math_max :: "number list \<Rightarrow> number" where
  "Math_max xs = fold num_max xs NegInfinity"

text \<open>
  What an operation on non-negative doubles gives: zero, a double of at least the
  smallest subnormal, or \<^verbatim>\<open>Infinity\<close>.
\<close>

definition nonneg_result :: "number \<Rightarrow> bool" where
  "nonneg_result a \<longleftrightarrow>
     (case a of
        Finite r \<Rightarrow> r = 0 \<or> 2 powr (- 1074) \<le> r
      | PosInfinity \<Rightarrow> True
      | NegInfinity \<Rightarrow> False
      | NaN \<Rightarrow> False)"

text \<open>
  An array read \<^verbatim>\<open>xs[i]\<close>: \<^verbatim>\<open>undefined\<close> (here \<open>None\<close>) at every index that is not
  one of \<open>0, \<dots>, xs.length - 1\<close>; nothing is raised.
\<close>

definition js_get :: "'a list \<Rightarrow> int \<Rightarrow> 'a option" where
  "js_get xs i = (if 0 \<le> i \<and> i < int (length xs) then Some (xs ! nat i) else None)"

text \<open>
  \<^verbatim>\<open>xs.map(f)\<close> with a callback that can throw: the first exception ends the loop and
  leaves \<^verbatim>\<open>map\<close>.
\<close>

fun map_throwing :: "('a \<Rightarrow> js_error + 'b) \<Rightarrow> 'a list \<Rightarrow> js_error + 'b list" where
  "map_throwing f [] = Inr []"
| "map_throwing f (x # xs) =
     (case f x of
        Inl e \<Rightarrow> Inl e
      | Inr y \<Rightarrow> (case map_throwing f xs of Inl e \<Rightarrow> Inl e | Inr ys \<Rightarrow> Inr (y # ys)))"


section \<open>The display tokenizer\<close>

text \<open>
  \<^verbatim>\<open>simpleTokenize\<close> is defined with the same body in \<^verbatim>\<open>AttentionViewer.tsx\<close> and in
  \<^verbatim>\<open>HiddenStateExplorer.tsx\<close>:
  \<^verbatim>\<open>text.split(/\s+|(?=[.,;:!?])|(?<=[.,;:!?])/g).filter(token => token.trim() !== '')\<close>
  after \<^verbatim>\<open>if (!text) return []\<close>.
  A string is a list of code units; the model covers the code units below 256, where
  \<^verbatim>\<open>\s\<close> and \<^verbatim>\<open>trim\<close> know the seven characters of \<open>is_space\<close>.
\<close>

definition is_space :: "char \<Rightarrow> bool" where
  "is_space c \<longleftrightarrow>
     c \<in> set [CHR 0x09, CHR 0x0A, CHR 0x0B, CHR 0x0C, CHR 0x0D, CHR '' '', CHR 0xA0]"

definition is_punct :: "char \<Rightarrow> bool" where
  "is_punct c \<longleftrightarrow> c \<in> set ''.,;:!?''"

text \<open>
  The separator tried at position \<open>q\<close> exactly (the split runs it sticky), alternatives
  in the order of the pattern: a greedy run of white space, then the empty match before
  a punctuation character, then the empty match after one. The result is the end of
  the match.
\<close>

definition sep_match :: "string \<Rightarrow> nat \<Rightarrow> nat option" where
  "sep_match S q =
     (if is_space (S ! q) then Some (q + length (takeWhile is_space (drop q S)))
      else if is_punct (S ! q) then Some q
      else if 0 < q \<and> is_punct (S ! (q - 1)) then Some q
      else None)"

lemma sep_match_ge: "sep_match S q = Some e \<Longrightarrow> q \<le> e"
  by (auto simp: sep_match_def split: if_splits)

text \<open>
  The loop of \<^verbatim>\<open>String.prototype.split\<close> with a regular expression: \<open>p\<close> is the start of
  the piece being collected, \<open>q\<close> the position where the separator is tried. A failed
  match, or a match that ends at \<open>p\<close>, moves \<open>q\<close> on by one; any other match closes the
  piece \<open>S[p..q)\<close> and restarts at its end. The last piece \<open>S[p..)\<close> is always pushed.
\<close>

function split_loop :: "string \<Rightarrow> nat \<Rightarrow> nat \<Rightarrow> string list" where
  "split_loop S p q =
     (if q < length S then
        (case sep_match S q of
           None \<Rightarrow> split_loop S p (q + 1)
         | Some e \<Rightarrow>
             if e = p then split_loop S p (q + 1)
             else take (q - p) (drop p S) # split_loop S e e)
      else [drop p S])"
  by pat_completeness auto
termination
proof (relation "measures [\<lambda>(S, p, q). length S - q, \<lambda>(S, p, q). if p = q then 0 else 1]",
    goal_cases)
  case 1
  show ?case by simp
next
  case (2 S p q)
  then show ?case by auto
next
  case (3 S p q e)
  then show ?case by auto
next
  case (4 S p q e)
  then have "q \<le> e" by (simp add: sep_match_ge)
  with 4 show ?case by auto
qed

definition trim :: "string \<Rightarrow> string" where
  "trim t = rev (dropWhile is_space (rev (dropWhile is_space t)))"

definition simpleTokenize :: "string \<Rightarrow> string list" where
  "simpleTokenize text =
     (if text = [] then []
      else filter (\<lambda>token. trim token \<noteq> []) (split_loop text 0 0))"



section \<open>AttentionViewer.tsx\<close>

text \<open>A tensor entry is a finite number read from JSON.\<close>

type_synonym matrix = "real list list"

text \<open>\<^verbatim>\<open>attentionData: number[][][][]\<close>, layers, heads, query position, key position.\<close>

type_synonym attention = "matrix list list"

text \<open>The two \<^verbatim>\<open>useState\<close> slots of the component, both initially 0.\<close>

record selection =
  selectedLayer :: int
  selectedHead :: int

definition initial_selection :: selection where
  "initial_selection = \<lparr>selectedLayer = 0, selectedHead = 0\<rparr>"

text \<open>
  The handlers receive the result of \<^verbatim>\<open>parseInt(event.target.value, 10)\<close>; the model
  takes the parsed integer.
\<close>

definition handleLayerChange :: "int \<Rightarrow> selection \<Rightarrow> selection" where
  "handleLayerChange newLayer sel = sel\<lparr>selectedLayer := newLayer, selectedHead := 0\<rparr>"

definition handleHeadChange :: "int \<Rightarrow> selection \<Rightarrow> selection" where
  "handleHeadChange newHead sel = sel\<lparr>selectedHead := newHead\<rparr>"

definition numLayers :: "attention \<Rightarrow> nat" where
  "numLayers attentionData = length attentionData"

text \<open>\<^verbatim>\<open>attentionData[selectedLayer]?.length || 0\<close>\<close>

definition numHeads :: "attention \<Rightarrow> selection \<Rightarrow> nat" where
  "numHeads attentionData sel =
     (case js_get attentionData (selectedLayer sel) of
        None \<Rightarrow> 0
      | Some heads \<Rightarrow> length heads)"

text \<open>\<^verbatim>\<open>attentionData[selectedLayer]?.[selectedHead]\<close>; \<open>None\<close> is \<^verbatim>\<open>undefined\<close>.\<close>

definition currentAttentionMatrix :: "attention \<Rightarrow> selection \<Rightarrow> matrix option" where
  "currentAttentionMatrix attentionData sel =
     (case js_get attentionData (selectedLayer sel) of
        None \<Rightarrow> None
      | Some heads \<Rightarrow> js_get heads (selectedHead sel))"

text \<open>The condition under which \<^verbatim>\<open>console.warn\<close> is called (lines 41 to 49).\<close>

definition mismatch_warning :: "matrix option \<Rightarrow> string list \<Rightarrow> bool" where
  "mismatch_warning m displayTokens \<longleftrightarrow>
     (case m of
        None \<Rightarrow> True
      | Some M \<Rightarrow> length M = 0 \<or> length M \<noteq> length displayTokens)"

definition getNormalizedScore :: "number \<Rightarrow> number \<Rightarrow> number \<Rightarrow> number" where
  "getNormalizedScore score minScore maxScore =
     (if strict_eq maxScore minScore then Finite (1 / 2)
      else num_div (num_sub score minScore) (num_sub maxScore minScore))"

text \<open>
  \<^verbatim>\<open>let minScore = 0; let maxScore = 1;\<close> and, when the matrix is there, the minimum and
  the maximum of \<^verbatim>\<open>currentAttentionMatrix.flat()\<close>.
\<close>

definition minScore :: "matrix option \<Rightarrow> number" where
  "minScore m = (case m of None \<Rightarrow> Finite 0 | Some M \<Rightarrow> Math_min (map Finite (concat M)))"

definition maxScore :: "matrix option \<Rightarrow> number" where
  "maxScore m = (case m of None \<Rightarrow> Finite 1 | Some M \<Rightarrow> Math_max (map Finite (concat M)))"

text \<open>\<^verbatim>\<open>currentAttentionMatrix[i]?.[j] ?? 0\<close>\<close>

definition cell_score :: "matrix \<Rightarrow> nat \<Rightarrow> nat \<Rightarrow> real" where
  "cell_score M i j =
     (case js_get M (int i) of
        None \<Rightarrow> 0
      | Some r \<Rightarrow> (case js_get r (int j) of None \<Rightarrow> 0 | Some s \<Rightarrow> s))"

text \<open>
  One \<^verbatim>\<open>td\<close> of the heat map as line 134 would return it, with the two numbers of lines
  130 and 131.
\<close>

record cell =
  row :: nat
  col :: nat
  score :: real
  normalizedScore :: number

text \<open>
  The callback of the inner \<^verbatim>\<open>displayTokens.map\<close>, lines 128 to 144. It computes the
  score (line 130) and its normalisation (line 131); line 132 then reads
  \<^verbatim>\<open>constbgColor = `rgba(59, 130, 246, ${normalizedScore.toFixed(2)})`\<close>, an assignment to
  an identifier that is declared nowhere, and line 138 reads \<^verbatim>\<open>bgColor\<close>, declared
  nowhere either. In strict mode the assignment throws \<^verbatim>\<open>ReferenceError\<close>, so the
  callback never reaches its \<^verbatim>\<open>return\<close>.
\<close>

definition render_cell :: "matrix \<Rightarrow> nat \<Rightarrow> nat \<Rightarrow> js_error + cell" where
  "render_cell M i j =
     (let s = cell_score M i j;
          n = getNormalizedScore (Finite s) (minScore (Some M)) (maxScore (Some M))
      in Inl ReferenceError)"

text \<open>The table body: \<^verbatim>\<open>displayTokens.map((queryToken, i) => displayTokens.map((keyToken, j) => ...))\<close>\<close>

definition render_rows :: "matrix \<Rightarrow> string list \<Rightarrow> js_error + cell list list" where
  "render_rows M displayTokens =
     map_throwing (\<lambda>i. map_throwing (\<lambda>j. render_cell M i j) [0..<length displayTokens])
       [0..<length displayTokens]"

text \<open>
  What one call of the component produces when it returns: whether \<^verbatim>\<open>console.warn\<close>
  was called, the options of the two selectors, whether the paragraph
  \<^verbatim>\<open>Select a layer/head to view attention, or prompt seems empty.\<close> is shown, and the
  table when it is rendered.
\<close>

record rendering =
  warned :: bool
  layer_options :: "nat list"
  head_options :: "nat list"
  message :: bool
  table :: "cell list list option"

text \<open>
  The outcome of one call: the early return of line 23, a returned element, or an
  exception, raised after \<^verbatim>\<open>console.warn\<close> was or was not called.
\<close>

datatype attention_output = Unavailable | Rendered rendering | Threw bool js_error

definition AttentionViewer :: "attention \<Rightarrow> string \<Rightarrow> selection \<Rightarrow> attention_output" where
  "AttentionViewer attentionData promptText sel =
     (let displayTokens = simpleTokenize promptText in
      if length attentionData = 0 then Unavailable
      else
        let m = currentAttentionMatrix attentionData sel;
            w = mismatch_warning m displayTokens;
            r = \<lparr>warned = w,
                 layer_options = [0..<numLayers attentionData],
                 head_options = [0..<numHeads attentionData sel],
                 message = (m = None \<or> length displayTokens = 0),
                 table = None\<rparr>
        in
          case m of
            None \<Rightarrow> Rendered r
          | Some M \<Rightarrow>
              if length displayTokens > 0 then
                (case render_rows M displayTokens of
                   Inl e \<Rightarrow> Threw w e
                 | Inr rows \<Rightarrow> Rendered (r\<lparr>table := Some rows\<rparr>))
              else Rendered r)"

text \<open>A 4 by 4 matrix with every score 0.25.\<close>

definition uniform4 :: matrix where
  "uniform4 = replicate 4 (replicate 4 (1 / 4))"


section \<open>HiddenStateExplorer.tsx\<close>

text \<open>\<^verbatim>\<open>hiddenStateData: number[][][]\<close>, layers, tokens, hidden size.\<close>

type_synonym hidden = "real list list list"

text \<open>\<^verbatim>\<open>Math.sqrt(vector.reduce((sum, val) => sum + val * val, 0))\<close>\<close>

definition l2norm_of :: "real list \<Rightarrow> number" where
  "l2norm_of vector =
     num_sqrt (foldl (\<lambda>sum val. num_add sum (num_mul (Finite val) (Finite val))) (Finite 0) vector)"

record point =
  layer :: nat
  l2norm :: number

text \<open>
  The body of the \<^verbatim>\<open>forEach\<close> over the layers with their indices: a layer whose token
  axis has no entry at the selected index pushes nothing.
\<close>

fun collect :: "(nat \<times> real list list) list \<Rightarrow> int \<Rightarrow> point list" where
  "collect [] k = []"
| "collect ((layerIndex, layerData) # rest) k =
     (case js_get layerData k of
        None \<Rightarrow> collect rest k
      | Some vector \<Rightarrow> \<lparr>layer = layerIndex, l2norm = l2norm_of vector\<rparr> # collect rest k)"

text \<open>\<open>selectedTokenIndex\<close> is \<^verbatim>\<open>number | null\<close>.\<close>

definition chartData :: "hidden \<Rightarrow> int option \<Rightarrow> point list" where
  "chartData hiddenStateData selectedTokenIndex =
     (case selectedTokenIndex of
        None \<Rightarrow> []
      | Some k \<Rightarrow>
          if length hiddenStateData > 0 then collect (enumerate 0 hiddenStateData) k else [])"

definition svgWidth :: number where "svgWidth = Finite 500"
definition svgHeight :: number where "svgHeight = Finite 300"
definition padding :: number where "padding = Finite 50"
definition chartWidth :: number where
  "chartWidth = num_sub svgWidth (num_mul (Finite 2) padding)"
definition chartHeight :: number where
  "chartHeight = num_sub svgHeight (num_mul (Finite 2) padding)"

text \<open>
  \<^verbatim>\<open>chartData.length > 0 ? Math.max(...chartData.map(d => d.l2norm)) : 0\<close>, and the same
  with \<^verbatim>\<open>Math.min\<close>.
\<close>

definition maxL2Norm :: "point list \<Rightarrow> number" where
  "maxL2Norm cd = (if length cd > 0 then Math_max (map l2norm cd) else Finite 0)"

definition minL2Norm :: "point list \<Rightarrow> number" where
  "minL2Norm cd = (if length cd > 0 then Math_min (map l2norm cd) else Finite 0)"

text \<open>\<^verbatim>\<open>padding + (layerIndex / (Math.max(1, hiddenStateData.length - 1))) * chartWidth\<close>\<close>

definition getX :: "hidden \<Rightarrow> number \<Rightarrow> number" where
  "getX hiddenStateData layerIndex =
     num_add padding
       (num_mul
          (num_div layerIndex
             (num_max (Finite 1) (num_sub (Finite (real (length hiddenStateData))) (Finite 1))))
          chartWidth)"

text \<open>
  \<^verbatim>\<open>padding + chartHeight - ((l2norm - minL2Norm) / Math.max(1, maxL2Norm - minL2Norm)) * chartHeight\<close>
\<close>

definition getY :: "point list \<Rightarrow> number \<Rightarrow> number" where
  "getY cd v =
     num_sub (num_add padding chartHeight)
       (num_mul
          (num_div (num_sub v (minL2Norm cd))
             (num_max (Finite 1) (num_sub (maxL2Norm cd) (minL2Norm cd))))
          chartHeight)"

text \<open>
  The coordinates of the line (the \<^verbatim>\<open>d\<close> attribute of the \<^verbatim>\<open>path\<close>, lines 113 to 118)
  and of the circles drawn on it (lines 120 to 131), as the source computes them: the
  line takes \<^verbatim>\<open>getY(d.l2norm)\<close>, the circles \<^verbatim>\<open>cy={getY(d.layer)}\<close>.
\<close>

definition path_points :: "hidden \<Rightarrow> int option \<Rightarrow> (number \<times> number) list" where
  "path_points hiddenStateData selectedTokenIndex =
     (let cd = chartData hiddenStateData selectedTokenIndex in
      map (\<lambda>d. (getX hiddenStateData (Finite (real (layer d))), getY cd (l2norm d))) cd)"

definition circle_points :: "hidden \<Rightarrow> int option \<Rightarrow> (number \<times> number) list" where
  "circle_points hiddenStateData selectedTokenIndex =
     (let cd = chartData hiddenStateData selectedTokenIndex in
      map (\<lambda>d. (getX hiddenStateData (Finite (real (layer d))),
                 getY cd (Finite (real (layer d))))) cd)"


section \<open>page.tsx: the analysis request\<close>




















section \<open>Properties of the rounding\<close>

lemma rhe_of_int [simp]: "round_half_even (of_int n) = n"
  by (simp add: round_half_even_def)

lemma rhe_le: "real_of_int (round_half_even y) \<le> y + 1 / 2"
  unfolding round_half_even_def Let_def by (auto; linarith)

lemma rhe_ge: "y - 1 / 2 \<le> real_of_int (round_half_even y)"
  unfolding round_half_even_def Let_def by (auto; linarith)

lemma rhe_mono:
  assumes "x \<le> y" shows "round_half_even x \<le> round_half_even y"
proof (cases "\<lfloor>x\<rfloor> = \<lfloor>y\<rfloor>")
  case True
  with assms show ?thesis
    unfolding round_half_even_def Let_def by (auto; linarith)
next
  case False
  with assms have "\<lfloor>x\<rfloor> < \<lfloor>y\<rfloor>" by (simp add: floor_mono order.strict_iff_order)
  then have "\<lfloor>x\<rfloor> + 1 \<le> \<lfloor>y\<rfloor>" by simp
  moreover have "round_half_even x \<le> \<lfloor>x\<rfloor> + 1"
    unfolding round_half_even_def Let_def by auto
  moreover have "\<lfloor>y\<rfloor> \<le> round_half_even y"
    unfolding round_half_even_def Let_def by auto
  ultimately show ?thesis by linarith
qed

lemma rhe_minus: "round_half_even (- y) = - round_half_even y"
proof (cases "y \<in> \<int>")
  case True
  then obtain n where "y = of_int n" by (auto elim: Ints_cases)
  then show ?thesis by (simp flip: of_int_minus)
next
  case False
  then have "y \<noteq> of_int \<lfloor>y\<rfloor>" by (metis Ints_of_int)
  then have f: "\<lfloor>- y\<rfloor> = - \<lfloor>y\<rfloor> - 1"
    by (simp add: floor_minus ceiling_altdef)
  show ?thesis
    unfolding round_half_even_def Let_def f
    using False by (auto; linarith?)
qed


lemma rhe_0 [simp]: "round_half_even 0 = 0"
  by (simp add: round_half_even_def)

lemma rhe_nonneg: "0 \<le> y \<Longrightarrow> 0 \<le> round_half_even y"
  using rhe_mono [of 0 y] rhe_of_int [of 0] by simp

lemma rhe_ge_int: "of_int n \<le> y \<Longrightarrow> n \<le> round_half_even y"
  using rhe_mono [of "of_int n" y] by simp

lemma rhe_le_int: "y \<le> of_int n \<Longrightarrow> round_half_even y \<le> n"
  using rhe_mono [of y "of_int n"] by simp

lemma expo_minus [simp]: "expo (- x) = expo x"
  by (simp add: expo_def)

lemma ulp_minus [simp]: "ulp (- x) = ulp x"
  by (simp add: ulp_def)

lemma ulp_pos [simp]: "0 < ulp x"
  by (simp add: ulp_def)

lemma ulp_nonneg [simp]: "0 \<le> ulp x"
  by (simp add: ulp_def)

lemma expo_ge: "- 1022 \<le> expo x"
  by (simp add: expo_def)

lemma ulp_ge: "2 powr (- 1074) \<le> ulp x"
proof -
  have "(- 1074 :: real) \<le> of_int (expo x - 52)"
    using expo_ge [of x] by simp
  then show ?thesis
    unfolding ulp_def by (subst powr_le_cancel_iff) simp_all
qed

lemma nearest_minus: "nearest (- x) = - nearest x"
  by (simp add: nearest_def rhe_minus)

lemma nearest_0 [simp]: "nearest 0 = 0"
  by (simp add: nearest_def)

lemma nearest_nonneg:
  assumes "0 \<le> x" shows "0 \<le> nearest x"
proof -
  from assms have "0 \<le> x / ulp x" by simp
  then have "0 \<le> round_half_even (x / ulp x)" by (rule rhe_nonneg)
  then show ?thesis by (simp add: nearest_def)
qed

lemma nearest_nonpos: "x \<le> 0 \<Longrightarrow> nearest x \<le> 0"
  using nearest_nonneg [of "- x"] by (simp add: nearest_minus)

text \<open>The binade of a positive number.\<close>

lemma expo_bounds:
  assumes "0 < x"
  shows "x < 2 powr of_int (expo x + 1)"
    and "- 1022 < expo x \<Longrightarrow> 2 powr of_int (expo x) \<le> x"
proof -
  let ?k = "\<lfloor>log 2 x\<rfloor>"
  from assms have k: "2 powr of_int ?k \<le> x \<and> x < 2 powr of_int (?k + 1)"
    using floor_log_eq_powr_iff [of x 2 ?k] by simp
  have e: "expo x = max ?k (- 1022)"
    using assms by (simp add: expo_def)
  have "2 powr of_int (?k + 1) \<le> (2::real) powr of_int (expo x + 1)"
    unfolding e by (subst powr_le_cancel_iff) simp_all
  with k show "x < 2 powr of_int (expo x + 1)" by linarith
  show "2 powr of_int (expo x) \<le> x" if "- 1022 < expo x"
  proof -
    from that e have "expo x = ?k" by linarith
    with k show ?thesis by simp
  qed
qed

lemma expo_mono:
  assumes "0 < x" and "x \<le> y"
  shows "expo x \<le> expo y"
proof -
  from assms have "log 2 x \<le> log 2 y" by simp
  then have "\<lfloor>log 2 x\<rfloor> \<le> \<lfloor>log 2 y\<rfloor>" by (rule floor_mono)
  with assms show ?thesis by (simp add: expo_def)
qed

lemma ratio_upper:
  assumes "0 < x"
  shows "x / ulp x < 2 ^ 53"
proof -
  have "2 powr of_int (expo x + 1) = ulp x * 2 ^ 53"
  proof -
    have "of_int (expo x + 1) = of_int (expo x - 52) + (53 :: real)" by simp
    then have "2 powr of_int (expo x + 1) = 2 powr of_int (expo x - 52) * 2 powr (53 :: real)"
      by (simp only: powr_add)
    also have "(2::real) powr (53 :: real) = 2 ^ 53"
      by (simp add: powr_numeral)
    finally show ?thesis by (simp add: ulp_def)
  qed
  with expo_bounds(1) [OF assms] have "x < ulp x * 2 ^ 53" by simp
  then show ?thesis by (simp add: divide_less_eq mult.commute)
qed

lemma ratio_lower:
  assumes "0 < x" and "- 1022 < expo x"
  shows "2 ^ 52 \<le> x / ulp x"
proof -
  have "2 powr of_int (expo x) = ulp x * 2 ^ 52"
  proof -
    have "of_int (expo x) = of_int (expo x - 52) + (52 :: real)" by simp
    then have "2 powr of_int (expo x) = 2 powr of_int (expo x - 52) * 2 powr (52 :: real)"
      by (simp only: powr_add)
    also have "(2::real) powr (52 :: real) = 2 ^ 52"
      by (simp add: powr_numeral)
    finally show ?thesis by (simp add: ulp_def)
  qed
  with expo_bounds(2) [OF assms] have "ulp x * 2 ^ 52 \<le> x" by simp
  then show ?thesis by (simp add: le_divide_eq mult.commute)
qed

lemma nearest_upper:
  assumes "0 < x"
  shows "nearest x \<le> 2 powr of_int (expo x + 1)"
proof -
  have "x / ulp x \<le> of_int (2 ^ 53)" using ratio_upper [OF assms] by simp
  then have "round_half_even (x / ulp x) \<le> 2 ^ 53" by (rule rhe_le_int)
  then have "real_of_int (round_half_even (x / ulp x)) \<le> 2 ^ 53"
    by (metis of_int_le_iff of_int_numeral of_int_power)
  then have "nearest x \<le> 2 ^ 53 * ulp x"
    unfolding nearest_def by (simp add: mult_right_mono)
  also have "2 ^ 53 * ulp x = 2 powr of_int (expo x + 1)"
  proof -
    have "of_int (expo x + 1) = of_int (expo x - 52) + (53 :: real)" by simp
    then have "2 powr of_int (expo x + 1) = 2 powr of_int (expo x - 52) * 2 powr (53 :: real)"
      by (simp only: powr_add)
    also have "(2::real) powr (53 :: real) = 2 ^ 53"
      by (simp add: powr_numeral)
    finally show ?thesis by (simp add: ulp_def)
  qed
  finally show ?thesis .
qed

lemma nearest_lower:
  assumes "0 < x" and "- 1022 < expo x"
  shows "2 powr of_int (expo x) \<le> nearest x"
proof -
  have "of_int (2 ^ 52) \<le> x / ulp x" using ratio_lower [OF assms] by simp
  then have "2 ^ 52 \<le> round_half_even (x / ulp x)" by (rule rhe_ge_int)
  then have "2 ^ 52 \<le> real_of_int (round_half_even (x / ulp x))"
    by (metis of_int_le_iff of_int_numeral of_int_power)
  then have "2 ^ 52 * ulp x \<le> nearest x"
    unfolding nearest_def by (simp add: mult_right_mono)
  moreover have "2 ^ 52 * ulp x = 2 powr of_int (expo x)"
  proof -
    have "of_int (expo x) = of_int (expo x - 52) + (52 :: real)" by simp
    then have "2 powr of_int (expo x) = 2 powr of_int (expo x - 52) * 2 powr (52 :: real)"
      by (simp only: powr_add)
    also have "(2::real) powr (52 :: real) = 2 ^ 52"
      by (simp add: powr_numeral)
    finally show ?thesis by (simp add: ulp_def)
  qed
  ultimately show ?thesis by simp
qed

lemma nearest_mono_pos:
  assumes "0 < x" and "x \<le> y"
  shows "nearest x \<le> nearest y"
proof (cases "expo x = expo y")
  case True
  then have u: "ulp x = ulp y" by (simp add: ulp_def)
  from assms(2) have "x / ulp y \<le> y / ulp y"
    by (intro divide_right_mono) simp_all
  then have "round_half_even (x / ulp y) \<le> round_half_even (y / ulp y)"
    by (rule rhe_mono)
  then show ?thesis
    unfolding nearest_def u by (simp add: mult_right_mono)
next
  case False
  with expo_mono [OF assms] have lt: "expo x < expo y" by simp
  from assms have y: "0 < y" by simp
  from lt expo_ge [of x] have "- 1022 < expo y" by linarith
  from nearest_lower [OF y this] have "2 powr of_int (expo y) \<le> nearest y" .
  moreover have "2 powr of_int (expo x + 1) \<le> (2::real) powr of_int (expo y)"
    using lt by (subst powr_le_cancel_iff) simp_all
  moreover note nearest_upper [OF assms(1)]
  ultimately show ?thesis by linarith
qed

lemma nearest_mono:
  assumes "x \<le> y"
  shows "nearest x \<le> nearest y"
proof -
  consider "0 < x" | "x \<le> 0" "0 \<le> y" | "y < 0" by linarith
  then show ?thesis
  proof cases
    case 1
    from 1 assms show ?thesis by (rule nearest_mono_pos)
  next
    case 2
    then show ?thesis
      using nearest_nonpos [of x] nearest_nonneg [of y] by linarith
  next
    case 3
    with assms have "0 < - y" and "- y \<le> - x" by simp_all
    then have "nearest (- y) \<le> nearest (- x)" by (rule nearest_mono_pos)
    then show ?thesis by (simp add: nearest_minus)
  qed
qed


text \<open>Numbers with at most 53 significant bits above the smallest subnormal are exact.\<close>

lemma nearest_dyadic_pos:
  assumes "0 < m" and "m < 2 ^ 53" and "- 1074 \<le> e"
  shows "nearest (of_int m * 2 powr of_int e) = of_int m * 2 powr of_int e"
proof -
  define x :: real where "x = of_int m * 2 powr of_int e"
  from assms(1) have x: "0 < x" by (simp add: x_def)
  have le: "expo x - 52 \<le> e"
  proof (cases "- 1022 < expo x")
    case False
    with expo_ge [of x] assms(3) show ?thesis by linarith
  next
    case True
    from expo_bounds(2) [OF x True] have "2 powr of_int (expo x) \<le> x" .
    also have "x < 2 ^ 53 * 2 powr of_int e"
    proof -
      from assms(2) have "real_of_int m < 2 ^ 53"
        by (metis of_int_less_iff of_int_numeral of_int_power)
      then show ?thesis by (simp add: x_def)
    qed
    also have "\<dots> = 2 powr of_int (53 + e)"
    proof -
      have "of_int (53 + e) = (53 :: real) + of_int e" by simp
      then have "2 powr of_int (53 + e) = 2 powr (53 :: real) * 2 powr of_int e"
        by (simp only: powr_add)
      then show ?thesis by (simp add: powr_numeral)
    qed
    finally have "(2::real) powr of_int (expo x) < 2 powr of_int (53 + e)" .
    then have "of_int (expo x) < (of_int (53 + e) :: real)"
      by (subst (asm) powr_less_cancel_iff) simp_all
    then show ?thesis by linarith
  qed
  define k where "k = nat (e - (expo x - 52))"
  from le have "real_of_int e = of_int (expo x - 52) + real k"
    by (simp add: k_def)
  then have "2 powr real_of_int e = 2 powr (of_int (expo x - 52) + real k)"
    by (rule arg_cong)
  also have "\<dots> = ulp x * 2 ^ k"
    by (simp add: powr_add ulp_def powr_realpow)
  finally have p: "2 powr of_int e = ulp x * 2 ^ k" .
  have a: "x = of_int m * (ulp x * 2 ^ k)"
    by (subst p [symmetric]) (rule x_def)
  have b: "of_int (m * 2 ^ k) * ulp x = of_int m * (ulp x * 2 ^ k)"
    by simp
  have "x = of_int (m * 2 ^ k) * ulp x"
    by (rule trans [OF a b [symmetric]])
  moreover from this have "x / ulp x = of_int (m * 2 ^ k)"
    by (metis nonzero_mult_div_cancel_right ulp_pos less_irrefl)
  then have "round_half_even (x / ulp x) = m * 2 ^ k"
    by (simp only: rhe_of_int)
  then have "nearest x = of_int (m * 2 ^ k) * ulp x"
    by (simp only: nearest_def)
  ultimately have "nearest x = x" by simp
  then show ?thesis by (simp only: x_def)
qed

lemma nearest_dyadic:
  assumes "\<bar>m\<bar> < 2 ^ 53" and "- 1074 \<le> e"
  shows "nearest (of_int m * 2 powr of_int e) = of_int m * 2 powr of_int e"
proof -
  consider "0 < m" | "m = 0" | "m < 0" by linarith
  then show ?thesis
  proof cases
    case 1
    with assms show ?thesis by (intro nearest_dyadic_pos) simp_all
  next
    case 2
    then show ?thesis by simp
  next
    case 3
    with assms have "nearest (of_int (- m) * 2 powr of_int e) = of_int (- m) * 2 powr of_int e"
      by (intro nearest_dyadic_pos) simp_all
    then show ?thesis
      using nearest_minus [of "of_int m * 2 powr of_int e"] by simp
  qed
qed

lemma nearest_of_int:
  assumes "\<bar>n\<bar> < 2 ^ 53"
  shows "nearest (of_int n) = of_int n"
  using nearest_dyadic [OF assms, of 0] by simp

lemma fl_of_int:
  assumes "\<bar>n\<bar> < 2 ^ 53"
  shows "fl (of_int n) = Finite (of_int n)"
proof -
  from assms have "\<bar>real_of_int n\<bar> < 2 ^ 53"
    by (metis of_int_abs of_int_less_iff of_int_numeral of_int_power)
  also have "(2::real) ^ 53 \<le> 2 ^ 1024" by simp
  finally have "\<not> 2 ^ 1024 \<le> \<bar>real_of_int n\<bar>" by simp
  then show ?thesis
    by (simp add: fl_def nearest_of_int [OF assms])
qed

lemma fl_0 [simp]: "fl 0 = Finite 0"
  by (simp add: fl_def)

lemma fl_1 [simp]: "fl 1 = Finite 1"
  using fl_of_int [of 1] by simp

lemma fl_numeral [simp]:
  "(numeral k :: int) < 2 ^ 53 \<Longrightarrow> fl (numeral k) = Finite (numeral k)"
  using fl_of_int [of "numeral k"] by simp

lemma fl_neg_numeral [simp]:
  "(numeral k :: int) < 2 ^ 53 \<Longrightarrow> fl (- numeral k) = Finite (- numeral k)"
  using fl_of_int [of "- numeral k"] by simp



text \<open>Around zero: what rounds to 0, and how small a non-zero result can be.\<close>

lemma rhe_half [simp]: "round_half_even (1 / 2) = 0"
  by (simp add: round_half_even_def)

lemma rhe_pos:
  assumes "1 / 2 < y"
  shows "1 \<le> round_half_even y"
proof (cases "1 \<le> y")
  case True
  then have "of_int 1 \<le> y" by simp
  then show ?thesis by (rule rhe_ge_int)
next
  case False
  with assms have "\<lfloor>y\<rfloor> = 0" by (simp add: floor_eq_iff)
  with assms show ?thesis by (simp add: round_half_even_def)
qed

lemma expo_small:
  assumes "0 < x" and "x < 2 powr (- 1022)"
  shows "expo x = - 1022"
proof -
  have "\<lfloor>log 2 x\<rfloor> \<le> - 1022"
  proof (rule ccontr)
    assume "\<not> \<lfloor>log 2 x\<rfloor> \<le> - 1022"
    then have "- 1022 < expo x" using assms(1) by (simp add: expo_def)
    moreover from this have "- 1022 \<le> real_of_int (expo x)" by linarith
    then have "(2::real) powr (- 1022) \<le> 2 powr of_int (expo x)"
      by (subst powr_le_cancel_iff) simp_all
    ultimately show False using expo_bounds(2) [OF assms(1)] assms(2) by linarith
  qed
  with assms(1) show ?thesis by (simp add: expo_def)
qed

lemma ulp_small:
  assumes "0 < x" and "x < 2 powr (- 1022)"
  shows "ulp x = 2 powr (- 1074)"
  by (simp add: ulp_def expo_small [OF assms])

lemma powr_1075_less: "(2::real) powr (- 1075) < 2 powr (- 1022)"
  by (subst powr_less_cancel_iff) simp_all

lemma powr_1074_less: "(2::real) powr (- 1074) < 2 powr (- 1022)"
  by (subst powr_less_cancel_iff) simp_all

lemma half_ulp: "(2::real) powr (- 1075) = 2 powr (- 1074) / 2"
proof -
  have "(2::real) powr (- 1075) = 2 powr (- 1074 + - 1)" by simp
  also have "\<dots> = 2 powr (- 1074) * 2 powr (- 1)" by (simp only: powr_add)
  also have "(2::real) powr (- 1) = 1 / 2" by (simp add: powr_minus_divide)
  finally show ?thesis by simp
qed

lemma nearest_half_ulp: "nearest (2 powr (- 1075)) = 0"
proof -
  define h :: real where "h = 2 powr (- 1075)"
  have u: "ulp h = 2 powr (- 1074)"
    unfolding h_def by (rule ulp_small) (simp_all add: powr_1075_less)
  have hh: "h = 2 powr (- 1074) / 2"
    unfolding h_def by (rule half_ulp)
  have "h / ulp h = h / 2 powr (- 1074)" by (simp only: u)
  also have "\<dots> = 1 / 2" by (subst hh) simp
  finally have "h / ulp h = 1 / 2" .
  then have "nearest h = 0" by (simp add: nearest_def)
  then show ?thesis by (simp only: h_def)
qed

lemma nearest_zero_iff: "nearest x = 0 \<longleftrightarrow> \<bar>x\<bar> \<le> 2 powr (- 1075)"
proof -
  have pos: "nearest y = 0 \<longleftrightarrow> y \<le> 2 powr (- 1075)" if "0 \<le> y" for y
  proof
    assume "y \<le> 2 powr (- 1075)"
    then have "nearest y \<le> 0"
      using nearest_mono [of y "2 powr (- 1075)"] nearest_half_ulp by simp
    with nearest_nonneg [OF that] show "nearest y = 0" by simp
  next
    assume z: "nearest y = 0"
    show "y \<le> 2 powr (- 1075)"
    proof (rule ccontr)
      assume "\<not> y \<le> 2 powr (- 1075)"
      then have gt: "2 powr (- 1075) < y" by simp
      then have y: "0 < y" by (smt (verit) powr_gt_zero)
      show False
      proof (cases "- 1022 < expo y")
        case True
        from nearest_lower [OF y True] z show False by simp
      next
        case False
        with expo_ge [of y] have "expo y = - 1022" by linarith
        then have u: "ulp y = 2 powr (- 1074)" by (simp add: ulp_def)
        from gt have "1 / 2 < y / ulp y"
          unfolding u half_ulp by (simp add: field_simps)
        then have "1 \<le> round_half_even (y / ulp y)" by (rule rhe_pos)
        then have "1 \<le> real_of_int (round_half_even (y / ulp y))" by linarith
        then have "1 * ulp y \<le> nearest y"
          unfolding nearest_def by (intro mult_right_mono) simp_all
        with z show False using ulp_pos [of y] by simp
      qed
    qed
  qed
  show ?thesis
  proof (cases "0 \<le> x")
    case True
    with pos [OF True] show ?thesis by simp
  next
    case False
    then have "0 \<le> - x" by simp
    from pos [OF this] False show ?thesis by (simp add: nearest_minus)
  qed
qed

lemma nearest_grid: "nearest x = 0 \<or> 2 powr (- 1074) \<le> \<bar>nearest x\<bar>"
proof (cases "round_half_even (x / ulp x) = 0")
  case True
  then show ?thesis by (simp add: nearest_def)
next
  case False
  then have "1 \<le> \<bar>real_of_int (round_half_even (x / ulp x))\<bar>"
    by linarith
  then have "1 * ulp x \<le> \<bar>real_of_int (round_half_even (x / ulp x))\<bar> * ulp x"
    by (intro mult_right_mono) simp_all
  also have "\<dots> = \<bar>nearest x\<bar>"
    by (simp add: nearest_def abs_mult)
  finally show ?thesis using ulp_ge [of x] by simp
qed


text \<open>The same facts for \<open>fl\<close>.\<close>

lemma fl_Finite_iff: "fl x = Finite r \<longleftrightarrow> \<bar>nearest x\<bar> < 2 ^ 1024 \<and> r = nearest x"
  by (auto simp: fl_def)

lemma fl_zero_iff: "fl x = Finite 0 \<longleftrightarrow> \<bar>x\<bar> \<le> 2 powr (- 1075)"
proof -
  have "fl x = Finite 0 \<longleftrightarrow> nearest x = 0"
    by (auto simp: fl_Finite_iff)
  then show ?thesis by (simp only: nearest_zero_iff)
qed

lemma fl_nonneg_cases:
  assumes "0 \<le> x"
  obtains r where "fl x = Finite r" and "r = nearest x" and "0 \<le> r" | "fl x = PosInfinity"
proof (cases "2 ^ 1024 \<le> \<bar>nearest x\<bar>")
  case False
  then have "fl x = Finite (nearest x)" by (simp add: fl_def)
  with nearest_nonneg [OF assms] that(1) show ?thesis by blast
next
  case True
  then have "nearest x \<noteq> 0" by auto
  then have "x \<noteq> 0" by auto
  with assms True have "fl x = PosInfinity" by (simp add: fl_def)
  with that(2) show ?thesis by blast
qed

lemma fl_mono:
  assumes "x \<le> y"
  shows "num_le (fl x) (fl y)"
proof -
  note m = nearest_mono [OF assms]
  show ?thesis
  proof (cases "2 ^ 1024 \<le> \<bar>nearest y\<bar>")
    case False
    then have y: "fl y = Finite (nearest y)" by (simp add: fl_def)
    show ?thesis
    proof (cases "2 ^ 1024 \<le> \<bar>nearest x\<bar>")
      case False
      then have "fl x = Finite (nearest x)" by (simp add: fl_def)
      with y m show ?thesis by simp
    next
      case True
      with m \<open>\<not> 2 ^ 1024 \<le> \<bar>nearest y\<bar>\<close> have "nearest x < 0" by linarith
      then have "\<not> 0 < x" using nearest_nonneg [of x] by linarith
      with True have "fl x = NegInfinity" by (simp add: fl_def)
      with y show ?thesis by simp
    qed
  next
    case True
    show ?thesis
    proof (cases "0 < y")
      case True
      with \<open>2 ^ 1024 \<le> \<bar>nearest y\<bar>\<close> have "fl y = PosInfinity" by (simp add: fl_def)
      then show ?thesis by (cases "fl x") (simp_all add: fl_def split: if_splits)
    next
      case False
      then have "nearest y \<le> 0" by (intro nearest_nonpos) simp
      with True m have big: "2 ^ 1024 \<le> \<bar>nearest x\<bar>" by linarith
      from False assms have "\<not> 0 < x" by linarith
      with big have "fl x = NegInfinity" by (simp add: fl_def)
      moreover from False True have "fl y = NegInfinity" by (simp add: fl_def)
      ultimately show ?thesis by simp
    qed
  qed
qed



lemma is_double_of_int: "\<bar>n\<bar> < 2 ^ 53 \<Longrightarrow> is_double (of_int n)"
  by (simp add: is_double_def fl_of_int)

lemma is_double_numeral [simp]: "(numeral k :: int) < 2 ^ 53 \<Longrightarrow> is_double (numeral k)"
  by (simp add: is_double_def)

lemma is_double_0 [simp]: "is_double 0" and is_double_1 [simp]: "is_double 1"
  by (simp_all add: is_double_def)

text \<open>The minimum and the maximum of finite arguments.\<close>

lemma fold_num_min_Finite: "fold num_min (map Finite xs) (Finite a) = Finite (fold min xs a)"
  by (induction xs arbitrary: a) (simp_all add: num_min_def min_def)

lemma fold_num_max_Finite: "fold num_max (map Finite xs) (Finite a) = Finite (fold max xs a)"
  by (induction xs arbitrary: a) (simp_all add: num_max_def max_def)

lemma Math_min_Min: "xs \<noteq> [] \<Longrightarrow> Math_min (map Finite xs) = Finite (Min (set xs))"
  using Min.set_eq_fold [of "hd xs" "tl xs"]
  by (cases xs) (simp_all add: Math_min_def num_min_def fold_num_min_Finite)

lemma Math_max_Max: "xs \<noteq> [] \<Longrightarrow> Math_max (map Finite xs) = Finite (Max (set xs))"
  using Max.set_eq_fold [of "hd xs" "tl xs"]
  by (cases xs) (simp_all add: Math_max_def num_max_def fold_num_max_Finite)


section \<open>Properties of the tokenizer\<close>

text \<open>
  C8. \<open>simpleTokenize\<close> is a function of its argument alone, so two calls on the same
  string give the same list in the same order; the empty string gives the empty list,
  and \<^verbatim>\<open>"Hello, world!"\<close> gives the four tokens \<^verbatim>\<open>Hello\<close>, \<^verbatim>\<open>,\<close>, \<^verbatim>\<open>world\<close>, \<^verbatim>\<open>!\<close>
  in that order.
\<close>

theorem simpleTokenize_examples:
  "simpleTokenize [] = []
   \<and> simpleTokenize ''Hello, world!'' = [''Hello'', '','', ''world'', ''!'']"
proof (intro conjI)
  show "simpleTokenize [] = []"
    by (simp add: simpleTokenize_def)
  show "simpleTokenize ''Hello, world!'' = [''Hello'', '','', ''world'', ''!'']"
    by code_simp
qed

lemma tokens_a_b: "simpleTokenize ''a b'' = [''a'', ''b'']"
  by code_simp

lemma tokens_a_e: "simpleTokenize ''a b c d e'' = [''a'', ''b'', ''c'', ''d'', ''e'']"
  by code_simp


section \<open>Properties of the score normalisation\<close>

lemma getNormalizedScore_degenerate:
  "getNormalizedScore s (Finite v) (Finite v) = Finite (1 / 2)"
  by (simp add: getNormalizedScore_def strict_eq_def)



text \<open>
  A matrix that is not empty and holds one value only: minimum and maximum coincide,
  and every score is normalised to 0.5 without a division.
\<close>

lemma degenerate_scores:
  assumes "concat M \<noteq> []" and "\<forall>x\<in>set (concat M). x = v"
  shows "minScore (Some M) = Finite v" and "maxScore (Some M) = Finite v"
    and "getNormalizedScore s (minScore (Some M)) (maxScore (Some M)) = Finite (1 / 2)"
proof -
  from assms have "set (concat M) = {v}"
    by (cases "concat M") auto
  then have "Min (set (concat M)) = v" and "Max (set (concat M)) = v"
    by simp_all
  with assms(1) show mn: "minScore (Some M) = Finite v" and mx: "maxScore (Some M) = Finite v"
    by (simp_all add: minScore_def maxScore_def Math_min_Min Math_max_Max)
  show "getNormalizedScore s (minScore (Some M)) (maxScore (Some M)) = Finite (1 / 2)"
    by (simp only: mn mx getNormalizedScore_degenerate)
qed








section \<open>Properties of the selection and of the rendering\<close>

text \<open>As soon as there is a token, building the table throws on its first cell.\<close>

lemma render_rows_throws:
  assumes "displayTokens \<noteq> []"
  shows "render_rows M displayTokens = Inl ReferenceError"
proof -
  from assms have "[0..<length displayTokens] = 0 # [1..<length displayTokens]"
    by (simp add: upt_conv_Cons)
  then show ?thesis
    by (simp add: render_rows_def render_cell_def)
qed

lemma AttentionViewer_Some:
  assumes "attentionData \<noteq> []"
    and "currentAttentionMatrix attentionData sel = Some M"
    and "simpleTokenize promptText \<noteq> []"
  shows "AttentionViewer attentionData promptText sel =
     Threw (M = [] \<or> length M \<noteq> length (simpleTokenize promptText)) ReferenceError"
  using assms
  by (simp add: AttentionViewer_def Let_def mismatch_warning_def render_rows_throws)

text \<open>
  C1. Five tokens against the 4 by 4 matrix of the selected head: the component calls
  \<^verbatim>\<open>console.warn\<close> for the mismatch and then throws \<^verbatim>\<open>ReferenceError\<close> while it builds
  the first cell of the table, so nothing is rendered.
\<close>

theorem mismatch_throws:
  "length (simpleTokenize ''a b c d e'') = 5
   \<and> currentAttentionMatrix [[uniform4]] initial_selection = Some uniform4
   \<and> length uniform4 = 4
   \<and> AttentionViewer [[uniform4]] ''a b c d e'' initial_selection = Threw True ReferenceError"
proof -
  have m: "currentAttentionMatrix [[uniform4]] initial_selection = Some uniform4"
    by (simp add: currentAttentionMatrix_def initial_selection_def js_get_def)
  have l: "length uniform4 = 4"
    by (simp add: uniform4_def)
  have "AttentionViewer [[uniform4]] ''a b c d e'' initial_selection =
      Threw (uniform4 = [] \<or> length uniform4 \<noteq> length (simpleTokenize ''a b c d e''))
        ReferenceError"
    by (rule AttentionViewer_Some) (simp_all add: m tokens_a_e)
  then have "AttentionViewer [[uniform4]] ''a b c d e'' initial_selection =
      Threw True ReferenceError"
    by (simp add: tokens_a_e l)
  with m l show ?thesis by (simp add: tokens_a_e)
qed

text \<open>
  C5. The matrix \<open>[[0.5, 0.5], [0.5, 0.5]]\<close> under a two-token prompt: minimum and
  maximum are both 0.5 and the score of the first cell is normalised to 0.5 on line
  131, but the component throws \<^verbatim>\<open>ReferenceError\<close> on line 132 before that cell, or any
  of the four, exists.
\<close>

theorem degenerate_throws:
  "minScore (Some [[1 / 2, 1 / 2], [1 / 2, 1 / 2]]) = Finite (1 / 2)
   \<and> maxScore (Some [[1 / 2, 1 / 2], [1 / 2, 1 / 2]]) = Finite (1 / 2)
   \<and> getNormalizedScore (Finite (cell_score [[1 / 2, 1 / 2], [1 / 2, 1 / 2]] 0 0))
       (minScore (Some [[1 / 2, 1 / 2], [1 / 2, 1 / 2]]))
       (maxScore (Some [[1 / 2, 1 / 2], [1 / 2, 1 / 2]])) = Finite (1 / 2)
   \<and> AttentionViewer [[[[1 / 2, 1 / 2], [1 / 2, 1 / 2]]]] ''a b'' initial_selection =
       Threw False ReferenceError"
proof -
  let ?M = "[[1 / 2, 1 / 2], [1 / 2, 1 / 2]] :: matrix"
  have ne: "concat ?M \<noteq> []" and eq: "\<forall>x\<in>set (concat ?M). x = 1 / 2"
    by simp_all
  note d = degenerate_scores [OF ne eq]
  have m: "currentAttentionMatrix [[?M]] initial_selection = Some ?M"
    by (simp add: currentAttentionMatrix_def initial_selection_def js_get_def)
  have "AttentionViewer [[?M]] ''a b'' initial_selection =
      Threw (?M = [] \<or> length ?M \<noteq> length (simpleTokenize ''a b'')) ReferenceError"
    by (rule AttentionViewer_Some) (simp_all add: m tokens_a_b)
  then have "AttentionViewer [[?M]] ''a b'' initial_selection = Threw False ReferenceError"
    by (simp add: tokens_a_b)
  with d show ?thesis by simp
qed

lemma currentAttentionMatrix_None_iff:
  "currentAttentionMatrix attentionData sel = None \<longleftrightarrow>
     \<not> (0 \<le> selectedLayer sel \<and> selectedLayer sel < int (numLayers attentionData))
     \<or> \<not> (0 \<le> selectedHead sel \<and> selectedHead sel < int (numHeads attentionData sel))"
  by (auto simp: currentAttentionMatrix_def numLayers_def numHeads_def js_get_def)

lemma currentAttentionMatrix_in_range:
  "0 \<le> selectedLayer sel \<Longrightarrow> selectedLayer sel < int (numLayers attentionData) \<Longrightarrow>
   0 \<le> selectedHead sel \<Longrightarrow> selectedHead sel < int (numHeads attentionData sel) \<Longrightarrow>
   currentAttentionMatrix attentionData sel =
     Some (attentionData ! nat (selectedLayer sel) ! nat (selectedHead sel))"
  by (auto simp: currentAttentionMatrix_def numLayers_def numHeads_def js_get_def)

text \<open>
  C2 (as the code has it). For a layer index outside \<open>0 \<le> layer < numLayers\<close> or a head
  index outside \<open>0 \<le> head < numHeads(layer)\<close> the optional chaining yields
  \<^verbatim>\<open>undefined\<close>: the component returns normally, with the warning on the console, the
  placeholder paragraph and no table. No index is clamped and no other matrix is put in
  its place, and the two selectors offer the indices in range only.
\<close>

theorem out_of_range_selection:
  assumes "attentionData \<noteq> []"
    and "\<not> (0 \<le> selectedLayer sel \<and> selectedLayer sel < int (numLayers attentionData))
       \<or> \<not> (0 \<le> selectedHead sel \<and> selectedHead sel < int (numHeads attentionData sel))"
  shows "currentAttentionMatrix attentionData sel = None
       \<and> AttentionViewer attentionData promptText sel =
           Rendered \<lparr>warned = True,
             layer_options = [0..<numLayers attentionData],
             head_options = [0..<numHeads attentionData sel],
             message = True, table = None\<rparr>"
proof -
  from assms(2) have m: "currentAttentionMatrix attentionData sel = None"
    by (simp only: currentAttentionMatrix_None_iff)
  with assms(1) show ?thesis
    by (simp add: AttentionViewer_def Let_def mismatch_warning_def)
qed

theorem out_of_range_selection_witness:
  "\<not> (selectedHead \<lparr>selectedLayer = 0, selectedHead = 2\<rparr>
        < int (numHeads [[[[1]], [[2]]]] \<lparr>selectedLayer = 0, selectedHead = 2\<rparr>))
   \<and> currentAttentionMatrix [[[[1]], [[2]]]] \<lparr>selectedLayer = 0, selectedHead = 2\<rparr> = None
   \<and> AttentionViewer [[[[1]], [[2]]]] ''a'' \<lparr>selectedLayer = 0, selectedHead = 2\<rparr> =
       Rendered \<lparr>warned = True, layer_options = [0], head_options = [0, 1], message = True,
         table = None\<rparr>"
proof -
  let ?A = "[[[[1]], [[2]]]] :: attention"
  let ?s = "\<lparr>selectedLayer = 0, selectedHead = 2\<rparr>"
  have h1: "?A \<noteq> []" by simp
  have nh: "numHeads ?A ?s = 2"
    by (simp add: numHeads_def js_get_def)
  have h2: "\<not> (0 \<le> selectedLayer ?s \<and> selectedLayer ?s < int (numLayers ?A))
       \<or> \<not> (0 \<le> selectedHead ?s \<and> selectedHead ?s < int (numHeads ?A ?s))"
    by (simp add: nh)
  have up: "[0..<2] = [0, 1]"
    by (simp add: upt_rec numeral_2_eq_2)
  from out_of_range_selection [OF h1 h2, of "''a''"] show ?thesis
    by (simp add: nh numLayers_def up)
qed

text \<open>
  One layer and the layer index 1: the component returns the placeholder rendering,
  nothing is raised.
\<close>

theorem out_of_range_selection_counterexample:
  "numLayers [[[[1]]]] = 1
   \<and> currentAttentionMatrix [[[[1]]]] \<lparr>selectedLayer = 1, selectedHead = 0\<rparr> = None
   \<and> AttentionViewer [[[[1]]]] ''a'' \<lparr>selectedLayer = 1, selectedHead = 0\<rparr> =
       Rendered \<lparr>warned = True, layer_options = [0], head_options = [], message = True,
         table = None\<rparr>"
  by (simp add: AttentionViewer_def Let_def currentAttentionMatrix_def mismatch_warning_def
      numLayers_def numHeads_def js_get_def)

text \<open>
  C10. \<open>handleLayerChange\<close> stores the new layer and sets the head index to 0; when the
  new layer exists and has at least one head, the pair selects the first head of that
  layer.
\<close>

theorem layer_change_resets_head:
  "selectedLayer (handleLayerChange newLayer sel) = newLayer
   \<and> selectedHead (handleLayerChange newLayer sel) = 0
   \<and> (0 \<le> newLayer \<and> newLayer < int (numLayers attentionData)
        \<and> 0 < numHeads attentionData (handleLayerChange newLayer sel)
      \<longrightarrow> currentAttentionMatrix attentionData (handleLayerChange newLayer sel) =
            Some (attentionData ! nat newLayer ! 0))"
proof -
  let ?s = "handleLayerChange newLayer sel"
  have l: "selectedLayer ?s = newLayer" and h: "selectedHead ?s = 0"
    by (simp_all add: handleLayerChange_def)
  have "currentAttentionMatrix attentionData ?s = Some (attentionData ! nat newLayer ! 0)"
    if "0 \<le> newLayer" "newLayer < int (numLayers attentionData)" "0 < numHeads attentionData ?s"
    using currentAttentionMatrix_in_range [of ?s attentionData] that by (simp add: l h)
  with l h show ?thesis by blast
qed

theorem layer_change_resets_head_witness:
  "handleLayerChange 1 \<lparr>selectedLayer = 0, selectedHead = 1\<rparr> =
     \<lparr>selectedLayer = 1, selectedHead = 0\<rparr>
   \<and> 0 < numHeads [[[[1]], [[2]]], [[[3]]]] \<lparr>selectedLayer = 1, selectedHead = 0\<rparr>
   \<and> currentAttentionMatrix [[[[1]], [[2]]], [[[3]]]]
       (handleLayerChange 1 \<lparr>selectedLayer = 0, selectedHead = 1\<rparr>) = Some [[3]]"
proof -
  let ?A = "[[[[1]], [[2]]], [[[3]]]] :: attention"
  let ?s = "\<lparr>selectedLayer = 0, selectedHead = 1\<rparr>"
  have e: "handleLayerChange 1 ?s = \<lparr>selectedLayer = 1, selectedHead = 0\<rparr>"
    by (simp add: handleLayerChange_def)
  have nh: "numHeads ?A \<lparr>selectedLayer = 1, selectedHead = 0\<rparr> = 1"
    by (simp add: numHeads_def js_get_def)
  have nl: "numLayers ?A = 2"
    by (simp add: numLayers_def)
  from layer_change_resets_head [of 1 ?s ?A] e nh nl show ?thesis
    by simp
qed


section \<open>Properties of the norm trajectory and of its chart\<close>

lemma collect_enumerate:
  "collect (enumerate n xs) k =
     map (\<lambda>(L, ld). \<lparr>layer = L, l2norm = l2norm_of (ld ! nat k)\<rparr>)
       (filter (\<lambda>(L, ld). 0 \<le> k \<and> k < int (length ld)) (enumerate n xs))"
  by (induction xs arbitrary: n) (simp_all add: js_get_def)

lemma enumerate_map_upt: "enumerate 0 xs = map (\<lambda>i. (i, xs ! i)) [0..<length xs]"
  by (rule nth_equalityI) (simp_all add: nth_enumerate_eq)

lemma chartData_Some:
  "chartData hs (Some k) =
     map (\<lambda>L. \<lparr>layer = L, l2norm = l2norm_of (hs ! L ! nat k)\<rparr>)
       (filter (\<lambda>L. 0 \<le> k \<and> k < int (length (hs ! L))) [0..<length hs])"
proof (cases "hs = []")
  case True
  then show ?thesis by (simp add: chartData_def)
next
  case False
  then have "chartData hs (Some k) = collect (enumerate 0 hs) k"
    by (simp add: chartData_def)
  also have "\<dots> = map (\<lambda>L. \<lparr>layer = L, l2norm = l2norm_of (hs ! L ! nat k)\<rparr>)
       (filter (\<lambda>L. 0 \<le> k \<and> k < int (length (hs ! L))) [0..<length hs])"
    by (subst collect_enumerate) (simp add: enumerate_map_upt filter_map comp_def)
  finally show ?thesis .
qed

lemma chartData_layers:
  "map layer (chartData hs (Some k)) =
     filter (\<lambda>L. 0 \<le> k \<and> k < int (length (hs ! L))) [0..<length hs]"
  by (simp add: chartData_Some comp_def)

text \<open>
  C6. For a selected token index, \<open>chartData\<close> holds one point for each layer whose token
  axis has the index, in strictly increasing order of the layer, with the norm of that
  layer's vector. It is as long as the tensor has layers when the index is in bounds on
  every layer, and shorter only when some layer excludes the index.
\<close>

theorem trajectory_layers:
  "map layer (chartData hs (Some k)) =
     filter (\<lambda>L. 0 \<le> k \<and> k < int (length (hs ! L))) [0..<length hs]
   \<and> sorted_wrt (<) (map layer (chartData hs (Some k)))
   \<and> (\<forall>d\<in>set (chartData hs (Some k)).
        layer d < length hs \<and> l2norm d = l2norm_of (hs ! layer d ! nat k))
   \<and> length (chartData hs (Some k)) \<le> length hs
   \<and> ((\<forall>ld\<in>set hs. 0 \<le> k \<and> k < int (length ld))
        \<longrightarrow> length (chartData hs (Some k)) = length hs)
   \<and> (length (chartData hs (Some k)) < length hs
        \<longrightarrow> (\<exists>ld\<in>set hs. \<not> (0 \<le> k \<and> k < int (length ld))))"
proof -
  let ?P = "\<lambda>L. 0 \<le> k \<and> k < int (length (hs ! L))"
  let ?cd = "chartData hs (Some k)"
  have layers: "map layer ?cd = filter ?P [0..<length hs]"
    by (rule chartData_layers)
  have srt: "sorted_wrt (<) (map layer ?cd)"
    unfolding layers by (rule sorted_wrt_filter) simp
  have pts: "\<forall>d\<in>set ?cd. layer d < length hs \<and> l2norm d = l2norm_of (hs ! layer d ! nat k)"
    by (auto simp: chartData_Some)
  have len: "length ?cd = length (filter ?P [0..<length hs])"
    using layers by (metis length_map)
  then have le: "length ?cd \<le> length hs"
    by (metis length_filter_le length_upt diff_zero)
  have full: "length ?cd = length hs" if inb: "\<forall>ld\<in>set hs. 0 \<le> k \<and> k < int (length ld)"
  proof -
    have "?P L" if "L < length hs" for L
      using inb nth_mem [OF that] by blast
    then have "\<forall>L\<in>set [0..<length hs]. ?P L" by simp
    then have "filter ?P [0..<length hs] = [0..<length hs]"
      by (simp only: filter_True)
    with len show ?thesis by simp
  qed
  have short: "\<exists>ld\<in>set hs. \<not> (0 \<le> k \<and> k < int (length ld))" if "length ?cd < length hs"
  proof (rule ccontr)
    assume "\<not> (\<exists>ld\<in>set hs. \<not> (0 \<le> k \<and> k < int (length ld)))"
    then have "\<forall>ld\<in>set hs. 0 \<le> k \<and> k < int (length ld)" by blast
    then have "length ?cd = length hs" by (rule full)
    with that show False by simp
  qed
  from layers srt pts le full short show ?thesis by blast
qed

theorem trajectory_layers_witness:
  "map layer (chartData [[[1, 0], [2, 0]], [[3, 4]], [[0, 0], [6, 8]]] (Some 1)) = [0, 2]
   \<and> length (chartData [[[1, 0], [2, 0]], [[3, 4]], [[0, 0], [6, 8]]] (Some 1)) < 3
   \<and> \<not> (1 < int (length [[3, 4 :: real]]))
   \<and> length (chartData [[[1, 0], [2, 0]], [[3, 4]], [[0, 0], [6, 8]]] (Some 0)) = 3"
proof -
  let ?hs = "[[[1, 0], [2, 0]], [[3, 4]], [[0, 0], [6, 8]]] :: hidden"
  have up: "[0..<3] = [0, 1, 2]"
    by (simp add: upt_rec numeral_3_eq_3)
  have all0: "\<forall>ld\<in>set ?hs. (0::int) \<le> 0 \<and> 0 < int (length ld)" by simp
  from trajectory_layers [of ?hs 1] have "map layer (chartData ?hs (Some 1)) = [0, 2]"
    by (simp add: up)
  moreover from this have "length (chartData ?hs (Some 1)) < 3"
    by (metis length_map list.size(3,4) One_nat_def Suc_1 add.commute lessI numeral_3_eq_3 plus_1_eq_Suc)
  moreover from trajectory_layers [of ?hs 0] all0 have "length (chartData ?hs (Some 0)) = 3"
    by simp
  ultimately show ?thesis by simp
qed

lemma sqrt_25: "sqrt 25 = 5" and sqrt_100: "sqrt 100 = 10"
proof -
  have "sqrt 25 = sqrt (5 * 5)" by simp
  then show "sqrt 25 = 5" by (simp only: real_sqrt_abs2 abs_numeral)
  have "sqrt 100 = sqrt (10 * 10)" by simp
  then show "sqrt 100 = 10" by (simp only: real_sqrt_abs2 abs_numeral)
qed

text \<open>
  C7. One layer, one token, the vector \<open>[10]\<close>: a single-layer domain and a constant
  series at once. The line passes through (50, 250), on the base line
  \<open>svgHeight - padding\<close>, but the circle of the same point is put at (50, 2250): its
  \<^verbatim>\<open>cy\<close> is \<^verbatim>\<open>getY(d.layer)\<close>, the layer index where the norm belongs. The same with
  two layers of norm 5: the line stays on the base line, the circles are put at
  \<open>y = 1250\<close> and \<open>y = 1050\<close>.
\<close>

theorem circle_outside_viewport:
  "chartData [[[10]]] (Some 0) = [\<lparr>layer = 0, l2norm = Finite 10\<rparr>]
   \<and> path_points [[[10]]] (Some 0) = [(Finite 50, Finite 250)]
   \<and> circle_points [[[10]]] (Some 0) = [(Finite 50, Finite 2250)]
   \<and> path_points [[[3, 4]], [[3, 4]]] (Some 0) = [(Finite 50, Finite 250), (Finite 450, Finite 250)]
   \<and> circle_points [[[3, 4]], [[3, 4]]] (Some 0) =
       [(Finite 50, Finite 1250), (Finite 450, Finite 1050)]
   \<and> num_sub svgHeight padding = Finite 250"
proof -
  have cd: "chartData [[[10]]] (Some 0) = [\<lparr>layer = 0, l2norm = Finite 10\<rparr>]"
    by (simp add: chartData_def js_get_def l2norm_of_def sqrt_100)
  have cd2: "chartData [[[3, 4]], [[3, 4]]] (Some 0) =
      [\<lparr>layer = 0, l2norm = Finite 5\<rparr>, \<lparr>layer = 1, l2norm = Finite 5\<rparr>]"
    by (simp add: chartData_def js_get_def l2norm_of_def sqrt_25)
  note scales = getX_def getY_def minL2Norm_def maxL2Norm_def Math_min_def Math_max_def
    num_min_def num_max_def padding_def chartWidth_def chartHeight_def svgWidth_def svgHeight_def
  have "path_points [[[10]]] (Some 0) = [(Finite 50, Finite 250)]"
    by (simp add: path_points_def cd scales)
  moreover have "circle_points [[[10]]] (Some 0) = [(Finite 50, Finite 2250)]"
    by (simp add: circle_points_def cd scales)
  moreover have "path_points [[[3, 4]], [[3, 4]]] (Some 0) =
      [(Finite 50, Finite 250), (Finite 450, Finite 250)]"
    by (simp add: path_points_def cd2 scales)
  moreover have "circle_points [[[3, 4]], [[3, 4]]] (Some 0) =
      [(Finite 50, Finite 1250), (Finite 450, Finite 1050)]"
    by (simp add: circle_points_def cd2 scales)
  moreover have "num_sub svgHeight padding = Finite 250"
    by (simp add: svgHeight_def padding_def)
  ultimately show ?thesis using cd by simp
qed


text \<open>Sums of squares in double arithmetic stay among the non-negative results.\<close>

lemma powr_1075_1074: "(2::real) powr (- 1075) < 2 powr (- 1074)"
  by (subst powr_less_cancel_iff) simp_all

lemma fl_nonneg_result:
  assumes "0 \<le> x"
  shows "nonneg_result (fl x)"
proof (rule fl_nonneg_cases [OF assms])
  fix r
  assume "fl x = Finite r" and r: "r = nearest x" and "0 \<le> r"
  with nearest_grid [of x] show ?thesis
    by (auto simp: nonneg_result_def)
next
  assume "fl x = PosInfinity"
  then show ?thesis by (simp add: nonneg_result_def)
qed

lemma nonneg_result_cases:
  assumes "nonneg_result a"
  obtains "a = Finite 0" | r where "a = Finite r" and "2 powr (- 1074) \<le> r" | "a = PosInfinity"
  using assms by (cases a) (auto simp: nonneg_result_def)

lemma num_add_nonneg_result:
  assumes "nonneg_result a" and "nonneg_result b"
  shows "nonneg_result (num_add a b)"
    and "num_add a b = Finite 0 \<longleftrightarrow> a = Finite 0 \<and> b = Finite 0"
proof -
  have pos: "0 < (2::real) powr (- 1074)" by simp
  have fin: "nonneg_result (fl (r + s)) \<and> (fl (r + s) = Finite 0 \<longleftrightarrow> r = 0 \<and> s = 0)"
    if "r = 0 \<or> 2 powr (- 1074) \<le> r" and "s = 0 \<or> 2 powr (- 1074) \<le> s" for r s :: real
  proof -
    from that pos have n: "0 \<le> r + s" by linarith
    have h: "0 \<le> (2::real) powr (- 1075)" by simp
    from that pos powr_1075_1074 h
    have "\<bar>r + s\<bar> \<le> 2 powr (- 1075) \<longleftrightarrow> r = 0 \<and> s = 0" by (auto; linarith)
    with fl_nonneg_result [OF n] show ?thesis by (simp add: fl_zero_iff)
  qed
  show "nonneg_result (num_add a b)"
    using assms fin
    by (cases a; cases b) (auto simp: nonneg_result_def)
  show "num_add a b = Finite 0 \<longleftrightarrow> a = Finite 0 \<and> b = Finite 0"
    using assms fin
    by (cases a; cases b) (auto simp: nonneg_result_def)
qed

lemma square_nonneg_result: "nonneg_result (num_mul (Finite x) (Finite x))"
  by (simp add: fl_nonneg_result)

lemma square_zero_iff: "num_mul (Finite x) (Finite x) = Finite 0 \<longleftrightarrow> x * x \<le> 2 powr (- 1075)"
  by (simp add: fl_zero_iff)

lemma sum_squares_result_conj:
  "nonneg_result acc \<Longrightarrow>
   nonneg_result (foldl (\<lambda>sum val. num_add sum (num_mul (Finite val) (Finite val))) acc v)
   \<and> (foldl (\<lambda>sum val. num_add sum (num_mul (Finite val) (Finite val))) acc v = Finite 0
        \<longleftrightarrow> acc = Finite 0 \<and> (\<forall>x\<in>set v. x * x \<le> 2 powr (- 1075)))"
proof (induction v arbitrary: acc)
  case Nil
  then show ?case by simp
next
  case (Cons x v)
  define a where "a = num_add acc (num_mul (Finite x) (Finite x))"
  from num_add_nonneg_result(1) [OF Cons.prems square_nonneg_result [of x]]
  have n: "nonneg_result a" by (simp only: a_def)
  have z: "a = Finite 0 \<longleftrightarrow> acc = Finite 0 \<and> x * x \<le> 2 powr (- 1075)"
    using num_add_nonneg_result(2) [OF Cons.prems square_nonneg_result [of x]]
    by (simp only: a_def square_zero_iff)
  from Cons.IH [OF n] z show ?case
    by (auto simp: a_def)
qed

lemma sum_squares_result:
  assumes "nonneg_result acc"
  shows "nonneg_result (foldl (\<lambda>sum val. num_add sum (num_mul (Finite val) (Finite val))) acc v)"
    and "foldl (\<lambda>sum val. num_add sum (num_mul (Finite val) (Finite val))) acc v = Finite 0
           \<longleftrightarrow> acc = Finite 0 \<and> (\<forall>x\<in>set v. x * x \<le> 2 powr (- 1075))"
  using sum_squares_result_conj [OF assms, of v] by blast+

lemma sqrt_ge_min:
  assumes "2 powr (- 1074) \<le> r"
  shows "2 powr (- 1074) \<le> sqrt r"
proof (cases "1 \<le> r")
  case True
  then have "1 \<le> sqrt r" by simp
  moreover have "(2::real) powr (- 1074) \<le> 2 powr 0"
    by (subst powr_le_cancel_iff) simp_all
  then have "(2::real) powr (- 1074) \<le> 1" by simp
  ultimately show ?thesis by linarith
next
  case False
  from assms have r: "0 \<le> r" by (smt (verit) powr_gt_zero)
  from False have "sqrt r \<le> 1" by simp
  moreover have "0 \<le> sqrt r" using r by simp
  ultimately have "sqrt r * sqrt r \<le> 1 * sqrt r"
    by (rule mult_right_mono)
  moreover have "sqrt r * sqrt r = r" using r by simp
  ultimately have "r \<le> sqrt r" by simp
  with assms show ?thesis by linarith
qed

lemma num_sqrt_nonneg_result:
  assumes "nonneg_result a"
  shows "num_le (Finite 0) (num_sqrt a)" and "num_sqrt a = Finite 0 \<longleftrightarrow> a = Finite 0"
proof -
  have fin: "num_le (Finite 0) (fl (sqrt r))" if "0 \<le> r" for r
  proof -
    from that have "0 \<le> sqrt r" by simp
    from fl_mono [OF this] show ?thesis by simp
  qed
  have nz: "fl (sqrt r) \<noteq> Finite 0" if "2 powr (- 1074) \<le> r" for r
  proof -
    from sqrt_ge_min [OF that] powr_1075_1074 have "\<not> \<bar>sqrt r\<bar> \<le> 2 powr (- 1075)"
      by linarith
    then show ?thesis by (simp only: fl_zero_iff) simp
  qed
  from assms show "num_le (Finite 0) (num_sqrt a)"
  proof (cases rule: nonneg_result_cases)
    case 1
    then show ?thesis by simp
  next
    case (2 r)
    then have "0 \<le> r" by (smt (verit) powr_gt_zero)
    with 2 fin [of r] show ?thesis by simp
  next
    case 3
    then show ?thesis by simp
  qed
  from assms show "num_sqrt a = Finite 0 \<longleftrightarrow> a = Finite 0"
  proof (cases rule: nonneg_result_cases)
    case 1
    then show ?thesis by simp
  next
    case (2 r)
    then have "0 < r" by (smt (verit) powr_gt_zero)
    with 2 nz [of r] show ?thesis by simp
  next
    case 3
    then show ?thesis by simp
  qed
qed

lemma l2norm_zero_iff:
  "l2norm_of v = Finite 0 \<longleftrightarrow> (\<forall>x\<in>set v. x * x \<le> 2 powr (- 1075))"
proof -
  have z: "nonneg_result (Finite 0)" by (simp add: nonneg_result_def)
  note s = sum_squares_result [OF z, of v]
  show ?thesis
    unfolding l2norm_of_def
    by (simp only: num_sqrt_nonneg_result(2) [OF s(1)] s(2)) simp
qed

lemma l2norm_nonneg: "num_le (Finite 0) (l2norm_of v)"
proof -
  have z: "nonneg_result (Finite 0)" by (simp add: nonneg_result_def)
  note s = sum_squares_result [OF z, of v]
  show ?thesis
    unfolding l2norm_of_def by (rule num_sqrt_nonneg_result(1) [OF s(1)])
qed

text \<open>
  C9 (as the code has it). The norm computed for a vector of finite numbers is never
  negative (it is a double, or \<^verbatim>\<open>Infinity\<close> when the sum of squares overflows), and it
  is 0 whenever every component is 0. It is 0 exactly when the square of every
  component rounds to 0, that is when \<open>x * x \<le> 2^-1075\<close> for every component \<open>x\<close>, so
  it is 0 for some vectors with non-zero components too. The vectors \<open>[1, 0]\<close>, \<open>[3, 4]\<close>,
  \<open>[0, 0]\<close> of one token on three layers give the norms 1, 5, 0.
\<close>

theorem l2norm_zero_underflow:
  "num_le (Finite 0) (l2norm_of v)
   \<and> (l2norm_of v = Finite 0 \<longleftrightarrow> (\<forall>x\<in>set v. x * x \<le> 2 powr (- 1075)))
   \<and> ((\<forall>x\<in>set v. x = 0) \<longrightarrow> l2norm_of v = Finite 0)
   \<and> map l2norm (chartData [[[1, 0]], [[3, 4]], [[0, 0]]] (Some 0)) = [Finite 1, Finite 5, Finite 0]"
proof -
  note n = l2norm_nonneg [of v] and i = l2norm_zero_iff [of v]
  have "l2norm_of v = Finite 0" if "\<forall>x\<in>set v. x = 0"
    using that by (auto simp: i)
  moreover have "map l2norm (chartData [[[1, 0]], [[3, 4]], [[0, 0]]] (Some 0)) =
      [Finite 1, Finite 5, Finite 0]"
    by (simp add: chartData_def js_get_def l2norm_of_def sqrt_25)
  ultimately show ?thesis using n i by blast
qed

theorem l2norm_zero_underflow_witness:
  "num_le (Finite 0) (l2norm_of [3, 4]) \<and> l2norm_of [3, 4] \<noteq> Finite 0
   \<and> l2norm_of [0, 0] = Finite 0"
proof -
  have "\<not> (9 :: real) \<le> 2 powr (- 1075)"
    using powr_less_cancel_iff [of 2 "- 1075" 0] by simp
  with l2norm_zero_underflow [of "[3, 4]"] l2norm_zero_underflow [of "[0, 0]"]
  show ?thesis by simp
qed

text \<open>
  The double \<open>2^-600\<close> is not 0, but its square \<open>2^-1200\<close> is below half the smallest
  subnormal and rounds to 0: the norm of the vector \<open>[2^-600]\<close> is computed as 0.
\<close>

theorem l2norm_zero_underflow_counterexample:
  "is_double (1 / 2 ^ 600) \<and> (1 / 2 ^ 600 :: real) \<noteq> 0 \<and> l2norm_of [1 / 2 ^ 600] = Finite 0"
proof -
  define x :: real where "x = 1 / 2 ^ 600"
  have p: "x = 2 powr (- 600)"
    by (simp add: x_def powr_minus_divide powr_numeral)
  have "nearest (of_int 1 * 2 powr of_int (- 600)) = of_int 1 * 2 powr of_int (- 600)"
    by (rule nearest_dyadic) simp_all
  then have nx: "nearest x = x" by (simp add: p)
  have "x < 1" "0 < x" by (simp_all add: x_def)
  then have "\<bar>x\<bar> < 2 ^ 1024"
    by (smt (verit) one_less_numeral_iff one_less_power semiring_norm(76) zero_less_numeral)
  with nx have d: "is_double x"
    by (simp add: is_double_def fl_Finite_iff)
  have "x * x = 2 powr (- 600 + - 600)"
    unfolding p by (simp only: powr_add)
  also have "\<dots> \<le> 2 powr (- 1075)"
    by (subst powr_le_cancel_iff) simp_all
  finally have "x * x \<le> 2 powr (- 1075)" .
  then have "\<forall>y\<in>set [x]. y * y \<le> 2 powr (- 1075)" by simp
  with l2norm_zero_iff [of "[x]"] have "l2norm_of [x] = Finite 0" by blast
  with d \<open>0 < x\<close> show ?thesis by (simp add: x_def)
qed


section \<open>Properties of the analysis request\<close>









end
